theory Spec2Isabelle
  imports Complex_Main "HOL-Library.AList"
begin

section \<open>Python values, errors and string operations\<close>

text \<open>
  The module \<open>app/tools/contact_tools.py\<close> works on dictionaries with string keys.
  A raw CSV row (\<open>Dict[str, str]\<close>) is a map from column names to strings. A
  Python \<open>str\<close> is modelled as a list of code points below 256, so every builtin
  below is written out for that range.  Exceptions are values of \<open>py_error\<close>; a
  function that can raise returns \<open>py_error + 'a\<close>.
\<close>

datatype py_error = ValueError | TypeError | AttributeError

type_synonym RawRecord = "string \<rightharpoonup> string"

text \<open>The values a contact dictionary or a filter clause can hold.\<close>

datatype pyval = PNone | PBool bool | PInt int | PStr string | PList "string list"

text \<open>\<open>str.isspace\<close> on one code point: 9-13, 28-32, 0x85 and 0xA0.\<close>

definition py_isspace :: "char \<Rightarrow> bool" where
  "py_isspace c =
     (let n = (of_char c :: nat)
      in (9 \<le> n \<and> n \<le> 13) \<or> (28 \<le> n \<and> n \<le> 32) \<or> n = 133 \<or> n = 160)"

text \<open>\<open>s.strip()\<close>\<close>

definition py_strip :: "string \<Rightarrow> string" where
  "py_strip s = rev (dropWhile py_isspace (rev (dropWhile py_isspace s)))"

text \<open>
  \<open>s.lower()\<close>: the upper-case letters below 256 are 65-90 and 192-222 except 215;
  each is mapped 32 code points up, which sets bit 5 (clear in both ranges).
\<close>

definition py_lower_char :: "char \<Rightarrow> char" where
  "py_lower_char c =
     (let n = (of_char c :: nat)
      in if (65 \<le> n \<and> n \<le> 90) \<or> (192 \<le> n \<and> n \<le> 222 \<and> n \<noteq> 215)
         then (case c of Char b0 b1 b2 b3 b4 b5 b6 b7 \<Rightarrow> Char b0 b1 b2 b3 b4 True b6 b7)
         else c)"

definition py_lower :: "string \<Rightarrow> string" where
  "py_lower s = map py_lower_char s"

text \<open>\<open>s.split(sep)\<close> for a one-character separator: always at least one piece.\<close>

fun py_split :: "char \<Rightarrow> string \<Rightarrow> string list" where
  "py_split sep [] = [[]]"
| "py_split sep (c # cs) =
     (if c = sep then [] # py_split sep cs
      else (case py_split sep cs of p # ps \<Rightarrow> (c # p) # ps | [] \<Rightarrow> [[c]]))"

text \<open>\<open>sep.join(parts)\<close>\<close>

fun py_join :: "string \<Rightarrow> string list \<Rightarrow> string" where
  "py_join sep [] = []"
| "py_join sep [p] = p"
| "py_join sep (p # q # ps) = p @ sep @ py_join sep (q # ps)"

text \<open>\<open>s.startswith(p)\<close> and the substring test \<open>needle in hay\<close>.\<close>

fun starts_with :: "string \<Rightarrow> string \<Rightarrow> bool" where
  "starts_with s [] = True"
| "starts_with [] (p # ps) = False"
| "starts_with (c # cs) (p # ps) = (c = p \<and> starts_with cs ps)"

fun py_in :: "string \<Rightarrow> string \<Rightarrow> bool" where
  "py_in needle [] = (needle = [])"
| "py_in needle (c # cs) = (starts_with (c # cs) needle \<or> py_in needle cs)"

text \<open>
  \<open>int(s)\<close> in base 10.  Leading and trailing white space is dropped (for \<open>int\<close>
  that is 9-13, 32, 0x85 and 0xA0: the separators 28-31 are not skipped), then an
  optional sign, then decimal digits in groups separated by single underscores.
  Anything else raises \<open>ValueError\<close>, here \<open>None\<close>.  The interpreter's limit on the
  number of digits is not modelled.
\<close>

definition int_space :: "char \<Rightarrow> bool" where
  "int_space c =
     (let n = (of_char c :: nat) in (9 \<le> n \<and> n \<le> 13) \<or> n = 32 \<or> n = 133 \<or> n = 160)"

definition is_digit :: "char \<Rightarrow> bool" where
  "is_digit c = (let n = (of_char c :: nat) in 48 \<le> n \<and> n \<le> 57)"

definition digit_val :: "char \<Rightarrow> int" where
  "digit_val c = int (of_char c) - 48"

text \<open>
  \<open>parse_digits acc prev s\<close>: \<open>acc\<close> is the value read so far and \<open>prev\<close> says
  whether the previous character was a digit (an underscore needs a digit on both sides).
\<close>

fun parse_digits :: "int \<Rightarrow> bool \<Rightarrow> string \<Rightarrow> int option" where
  "parse_digits acc prev [] = (if prev then Some acc else None)"
| "parse_digits acc prev (c # cs) =
     (if is_digit c then parse_digits (acc * 10 + digit_val c) True cs
      else if c = CHR ''_'' \<and> prev then
        (case cs of [] \<Rightarrow> None
         | d # ds \<Rightarrow> if is_digit d then parse_digits acc False cs else None)
      else None)"

definition py_int :: "string \<Rightarrow> int option" where
  "py_int s =
     (let t = rev (dropWhile int_space (rev (dropWhile int_space s)))
      in case t of
           [] \<Rightarrow> None
         | c # cs \<Rightarrow>
             if c = CHR ''-'' then map_option uminus (parse_digits 0 False cs)
             else if c = CHR ''+'' then parse_digits 0 False cs
             else parse_digits 0 False t)"

text \<open>Truthiness of \<open>record.get(k)\<close>: a missing key gives \<open>None\<close>, which is false,
  and a string is true unless it is empty.\<close>

definition truthy :: "string option \<Rightarrow> bool" where
  "truthy v = (case v of None \<Rightarrow> False | Some s \<Rightarrow> s \<noteq> [])"

section \<open>Record normaliser\<close>

subsection \<open>\<open>calculate_quality_score\<close>\<close>

definition calculate_quality_score :: "RawRecord \<Rightarrow> int" where
  "calculate_quality_score r =
     (let score = 0;
          score = (if truthy (r ''First Name'') then score + 5 else score);
          score = (if truthy (r ''Last Name'') then score + 5 else score);
          score = (if truthy (r ''Email'') then score + 10 else score);
          score = (if truthy (r ''Title'') then score + 10 else score);
          score = (if truthy (r ''Company Name'') then score + 10 else score);
          score = (if truthy (r ''Person Linkedin Url'') then score + 10 else score);
          score = (if truthy (r ''Mobile Phone'') \<or> truthy (r ''Work Direct Phone'')
                   then score + 10 else score);
          score = (if truthy (r ''Keywords'') then score + 5 else score);
          score = (if truthy (r ''Technologies'') then score + 5 else score);
          score = (if truthy (r ''Industry'') then score + 5 else score);
          score = (if truthy (r ''# Employees'') then score + 5 else score);
          score = (if r ''Email Status'' = Some ''Verified'' then score + 10 else score);
          score = (if r ''Primary Email Catch-all Status'' = Some ''Not Catch-all''
                   then score + 10 else score)
      in score)"

text \<open>
  The score as the specification words it: a list of weighted, independent checks, each
  adding its weight when it holds.
\<close>

definition quality_checks :: "(int \<times> (RawRecord \<Rightarrow> bool)) list" where
  "quality_checks =
     [(5, \<lambda>r. truthy (r ''First Name'')),
      (5, \<lambda>r. truthy (r ''Last Name'')),
      (10, \<lambda>r. truthy (r ''Email'')),
      (10, \<lambda>r. truthy (r ''Title'')),
      (10, \<lambda>r. truthy (r ''Company Name'')),
      (10, \<lambda>r. truthy (r ''Person Linkedin Url'')),
      (10, \<lambda>r. truthy (r ''Mobile Phone'') \<or> truthy (r ''Work Direct Phone'')),
      (5, \<lambda>r. truthy (r ''Keywords'')),
      (5, \<lambda>r. truthy (r ''Technologies'')),
      (5, \<lambda>r. truthy (r ''Industry'')),
      (5, \<lambda>r. truthy (r ''# Employees'')),
      (10, \<lambda>r. r ''Email Status'' = Some ''Verified''),
      (10, \<lambda>r. r ''Primary Email Catch-all Status'' = Some ''Not Catch-all'')]"

definition weighted_sum :: "(int \<times> (RawRecord \<Rightarrow> bool)) list \<Rightarrow> RawRecord \<Rightarrow> int" where
  "weighted_sum checks r = sum_list (map (\<lambda>(w, chk). if chk r then w else 0) checks)"

subsection \<open>\<open>determine_contact_state\<close>\<close>

text \<open>\<open>record.get(k) in ['true', 'True', True]\<close> on a string-valued record.\<close>

definition flag_set :: "RawRecord \<Rightarrow> string \<Rightarrow> bool" where
  "flag_set r k = (r k = Some ''true'' \<or> r k = Some ''True'')"

definition determine_contact_state :: "RawRecord \<Rightarrow> string" where
  "determine_contact_state r =
     (let replied = flag_set r ''Replied'';
          demoed = flag_set r ''Demoed'';
          bounced = flag_set r ''Email Bounced'';
          opened = flag_set r ''Email Open'';
          sent = flag_set r ''Email Sent'';
          has_email = truthy (r ''Email'');
          stage = (case r ''Stage'' of None \<Rightarrow> [] | Some s \<Rightarrow> s)
      in if replied then ''REPLIED''
         else if demoed then ''DEMOED''
         else if bounced then ''BOUNCED''
         else if opened then ''OPENED''
         else if sent then ''SENT''
         else if has_email then
           (if stage = ''Interested'' then ''INTERESTED_NOT_CONTACTED'' else ''NOT_CONTACTED'')
         else ''INCOMPLETE'')"

subsection \<open>\<open>is_executive_contact\<close>\<close>

definition executive_keywords :: "string list" where
  "executive_keywords = [''suite'', ''founder'', ''ceo'', ''cto'', ''cfo'', ''coo'', ''chief'']"

definition is_executive_contact :: "RawRecord \<Rightarrow> bool" where
  "is_executive_contact r =
     (let seniority = py_lower (case r ''Seniority'' of None \<Rightarrow> [] | Some s \<Rightarrow> s);
          title = py_lower (case r ''Title'' of None \<Rightarrow> [] | Some s \<Rightarrow> s)
      in list_ex (\<lambda>keyword. py_in keyword seniority \<or> py_in keyword title) executive_keywords)"

subsection \<open>\<open>transform_apollo_to_contact\<close>\<close>

record contact =
  id' :: string
  firstName :: "string option"
  lastName :: "string option"
  email :: string
  emailStatus :: string
  title :: "string option"
  seniority :: "string option"
  linkedinUrl :: "string option"
  country :: "string option"
  city :: "string option"
  companyName :: "string option"
  companyWebsite :: "string option"
  companySize :: int
  companySizeBucket :: string
  industry :: "string option"
  technologies :: "string list"
  keywords' :: "string list"
  stage :: string
  contactState :: string
  qualityScore :: int
  isExecutive :: bool

text \<open>\<open>[t.strip() for t in s.split(',') if t.strip()]\<close>\<close>

definition parse_array :: "string \<Rightarrow> string list" where
  "parse_array s = map py_strip (filter (\<lambda>t. py_strip t \<noteq> []) (py_split CHR '','' s))"

text \<open>The \<open>if\<close>/\<open>elif\<close> chain over \<open>company_size\<close>.\<close>

definition size_bucket :: "int \<Rightarrow> string" where
  "size_bucket company_size =
     (if company_size \<le> 10 then ''1-10 (Micro)''
      else if company_size \<le> 50 then ''11-50 (Small)''
      else if company_size \<le> 200 then ''51-200 (Medium)''
      else if company_size \<le> 500 then ''201-500 (Large)''
      else ''500+ (Enterprise)'')"

text \<open>\<open>record.get(k, d)\<close>\<close>

definition get_default :: "RawRecord \<Rightarrow> string \<Rightarrow> string \<Rightarrow> string" where
  "get_default r k d = (case r k of None \<Rightarrow> d | Some v \<Rightarrow> v)"

text \<open>\<open>record.get('# Employees', '0') or '0'\<close>: the argument handed to \<open>int\<close>.\<close>

definition employees_text :: "RawRecord \<Rightarrow> string" where
  "employees_text r =
     (let v = get_default r ''# Employees'' ''0'' in if v = [] then ''0'' else v)"

definition transform_apollo_to_contact :: "RawRecord \<Rightarrow> py_error + contact" where
  "transform_apollo_to_contact r =
     (let quality_score = calculate_quality_score r;
          is_executive = is_executive_contact r;
          contact_state = determine_contact_state r;
          techs = parse_array (get_default r ''Technologies'' []);
          kws = parse_array (get_default r ''Keywords'' [])
      in case py_int (employees_text r) of
           None \<Rightarrow> Inl ValueError
         | Some company_size \<Rightarrow>
             Inr \<lparr> id' = get_default r ''Apollo Contact Id'' [],
                   firstName = r ''First Name'',
                   lastName = r ''Last Name'',
                   email = get_default r ''Email'' [],
                   emailStatus = get_default r ''Email Status'' ''User Managed'',
                   title = r ''Title'',
                   seniority = r ''Seniority'',
                   linkedinUrl = r ''Person Linkedin Url'',
                   country = r ''Country'',
                   city = r ''City'',
                   companyName = r ''Company Name'',
                   companyWebsite = r ''Website'',
                   companySize = company_size,
                   companySizeBucket = size_bucket company_size,
                   industry = r ''Industry'',
                   technologies = techs,
                   keywords' = kws,
                   stage = get_default r ''Stage'' ''Cold'',
                   contactState = contact_state,
                   qualityScore = quality_score,
                   isExecutive = is_executive \<rparr>)"

section \<open>The contact dictionary\<close>

text \<open>
  \<open>load_contacts_from_csv\<close>: the file is the list of its rows, or \<open>None\<close> when it
  does not exist.  The rows are transformed in order and the first exception ends the
  load.
\<close>

fun transform_rows :: "RawRecord list \<Rightarrow> py_error + contact list" where
  "transform_rows [] = Inr []"
| "transform_rows (row # rows) =
     (case transform_apollo_to_contact row of
        Inl e \<Rightarrow> Inl e
      | Inr c \<Rightarrow> (case transform_rows rows of Inl e \<Rightarrow> Inl e | Inr cs \<Rightarrow> Inr (c # cs)))"

definition load_contacts_from_csv :: "RawRecord list option \<Rightarrow> py_error + contact list" where
  "load_contacts_from_csv csv = (case csv of None \<Rightarrow> Inr [] | Some rows \<Rightarrow> transform_rows rows)"

text \<open>
  The filters read a contact by key.  \<open>contact_get c k\<close> is \<open>Some v\<close> when \<open>k\<close> is
  one of the 21 keys of the dictionary built by \<open>transform_apollo_to_contact\<close>, with
  \<open>v\<close> the value stored there (\<open>PNone\<close> for a stored \<open>None\<close>), and \<open>None\<close> when
  the dictionary has no such key.
\<close>

definition opt_str :: "string option \<Rightarrow> pyval" where
  "opt_str v = (case v of None \<Rightarrow> PNone | Some s \<Rightarrow> PStr s)"

definition contact_get :: "contact \<Rightarrow> string \<Rightarrow> pyval option" where
  "contact_get c k =
     (if k = ''id'' then Some (PStr (id' c))
      else if k = ''firstName'' then Some (opt_str (firstName c))
      else if k = ''lastName'' then Some (opt_str (lastName c))
      else if k = ''email'' then Some (PStr (email c))
      else if k = ''emailStatus'' then Some (PStr (emailStatus c))
      else if k = ''title'' then Some (opt_str (title c))
      else if k = ''seniority'' then Some (opt_str (seniority c))
      else if k = ''linkedinUrl'' then Some (opt_str (linkedinUrl c))
      else if k = ''country'' then Some (opt_str (country c))
      else if k = ''city'' then Some (opt_str (city c))
      else if k = ''companyName'' then Some (opt_str (companyName c))
      else if k = ''companyWebsite'' then Some (opt_str (companyWebsite c))
      else if k = ''companySize'' then Some (PInt (companySize c))
      else if k = ''companySizeBucket'' then Some (PStr (companySizeBucket c))
      else if k = ''industry'' then Some (opt_str (industry c))
      else if k = ''technologies'' then Some (PList (technologies c))
      else if k = ''keywords'' then Some (PList (keywords' c))
      else if k = ''stage'' then Some (PStr (stage c))
      else if k = ''contactState'' then Some (PStr (contactState c))
      else if k = ''qualityScore'' then Some (PInt (qualityScore c))
      else if k = ''isExecutive'' then Some (PBool (isExecutive c))
      else None)"

subsection \<open>Builtins on values\<close>

text \<open>Truth value of a Python value.\<close>

fun py_truthy :: "pyval \<Rightarrow> bool" where
  "py_truthy PNone = False"
| "py_truthy (PBool b) = b"
| "py_truthy (PInt n) = (n \<noteq> 0)"
| "py_truthy (PStr s) = (s \<noteq> [])"
| "py_truthy (PList l) = (l \<noteq> [])"

text \<open>\<open>a == b\<close>: a \<open>bool\<close> is the integer 0 or 1; values of different kinds differ.\<close>

fun py_eq :: "pyval \<Rightarrow> pyval \<Rightarrow> bool" where
  "py_eq PNone PNone = True"
| "py_eq (PBool a) (PBool b) = (a = b)"
| "py_eq (PBool a) (PInt n) = ((if a then 1 else 0) = n)"
| "py_eq (PInt m) (PBool b) = (m = (if b then 1 else 0))"
| "py_eq (PInt m) (PInt n) = (m = n)"
| "py_eq (PStr s) (PStr t) = (s = t)"
| "py_eq (PList k) (PList l) = (k = l)"
| "py_eq _ _ = False"

text \<open>\<open>s >= t\<close> on strings (by code point) and on lists of strings: the first
  position that differs decides, and a proper prefix is smaller.\<close>

fun str_ge :: "string \<Rightarrow> string \<Rightarrow> bool" where
  "str_ge s [] = True"
| "str_ge [] (y # ys) = False"
| "str_ge (x # xs) (y # ys) = (if x = y then str_ge xs ys else (of_char y :: nat) < of_char x)"

fun strs_ge :: "string list \<Rightarrow> string list \<Rightarrow> bool" where
  "strs_ge k [] = True"
| "strs_ge [] (y # ys) = False"
| "strs_ge (x # xs) (y # ys) = (if x = y then strs_ge xs ys else str_ge x y)"

text \<open>\<open>a >= b\<close>: numbers with numbers, strings with strings, lists with lists;
  every other pair raises \<open>TypeError\<close>, \<open>None\<close> on either side included.\<close>

fun py_ge :: "pyval \<Rightarrow> pyval \<Rightarrow> py_error + bool" where
  "py_ge (PBool a) (PBool b) = Inr (if b then a else True)"
| "py_ge (PBool a) (PInt n) = Inr (n \<le> (if a then 1 else 0))"
| "py_ge (PInt m) (PBool b) = Inr ((if b then 1 else 0) \<le> m)"
| "py_ge (PInt m) (PInt n) = Inr (n \<le> m)"
| "py_ge (PStr s) (PStr t) = Inr (str_ge s t)"
| "py_ge (PList k) (PList l) = Inr (strs_ge k l)"
| "py_ge _ _ = Inl TypeError"

text \<open>\<open>str(n)\<close> for an integer.\<close>

fun nat_digits :: "nat \<Rightarrow> string" where
  "nat_digits n =
     (if n < 10 then [''0123456789'' ! n]
      else nat_digits (n div 10) @ [''0123456789'' ! (n mod 10)])"

declare nat_digits.simps [simp del]

definition int_str :: "int \<Rightarrow> string" where
  "int_str i = (if i < 0 then CHR ''-'' # nat_digits (nat (- i)) else nat_digits (nat i))"

text \<open>
  \<open>repr(s)\<close> for a string: double quotes when the string has a single quote and no
  double quote, single quotes otherwise; the backslash and the chosen quote are escaped,
  tab, newline and carriage return are written \<open>\t\<close>, \<open>\n\<close>, \<open>\r\<close>, and the
  other non-printable code points (below 32, 127 to 160, 173) as \<open>\xNN\<close>.
\<close>

definition hex2 :: "nat \<Rightarrow> string" where
  "hex2 n = [''0123456789abcdef'' ! (n div 16), ''0123456789abcdef'' ! (n mod 16)]"

definition repr_char :: "char \<Rightarrow> char \<Rightarrow> string" where
  "repr_char q c =
     (let n = (of_char c :: nat)
      in if c = CHR 0x5C then [CHR 0x5C, CHR 0x5C]
         else if c = q then [CHR 0x5C, q]
         else if n = 9 then [CHR 0x5C, CHR ''t'']
         else if n = 10 then [CHR 0x5C, CHR ''n'']
         else if n = 13 then [CHR 0x5C, CHR ''r'']
         else if n < 32 \<or> (127 \<le> n \<and> n \<le> 160) \<or> n = 173 then [CHR 0x5C, CHR ''x''] @ hex2 n
         else [c])"

definition repr_str :: "string \<Rightarrow> string" where
  "repr_str s =
     (let q = (if List.member s (CHR 0x27) \<and> \<not> List.member s (CHR 0x22)
               then CHR 0x22 else CHR 0x27)
      in [q] @ concat (map (repr_char q) s) @ [q])"

text \<open>\<open>str(v)\<close>; a list prints the \<open>repr\<close> of its items.\<close>

fun py_str :: "pyval \<Rightarrow> string" where
  "py_str PNone = ''None''"
| "py_str (PBool b) = (if b then ''True'' else ''False'')"
| "py_str (PInt n) = int_str n"
| "py_str (PStr s) = s"
| "py_str (PList l) = ''['' @ py_join '', '' (map repr_str l) @ '']''"

text \<open>The slice \<open>xs[:n]\<close>: a negative \<open>n\<close> counts from the end.\<close>

definition py_take :: "int \<Rightarrow> 'a list \<Rightarrow> 'a list" where
  "py_take n xs = (if 0 \<le> n then take (nat n) xs else take (length xs - nat (- n)) xs)"

text \<open>A list comprehension whose condition can raise: the items are tested in order
  and the first exception ends the comprehension.\<close>

fun filter_raise :: "('a \<Rightarrow> py_error + bool) \<Rightarrow> 'a list \<Rightarrow> py_error + 'a list" where
  "filter_raise p [] = Inr []"
| "filter_raise p (x # xs) =
     (case p x of
        Inl e \<Rightarrow> Inl e
      | Inr b \<Rightarrow>
          (case filter_raise p xs of
             Inl e \<Rightarrow> Inl e
           | Inr ys \<Rightarrow> Inr (if b then x # ys else ys)))"

section \<open>Filter engine: \<open>query_contacts_tool\<close>\<close>

text \<open>
  A clause of \<open>where_clauses\<close>.  \<open>field\<close> is \<open>clause.get('field')\<close> when that is a
  string, and \<open>None\<close> when the entry is missing or \<open>None\<close>; \<open>operator\<close> and
  \<open>cvalue\<close> are \<open>clause.get('operator')\<close> and \<open>clause.get('value')\<close>, any value
  (\<open>PNone\<close> when missing).
\<close>

record clause =
  field :: "string option"
  operator :: pyval
  cvalue :: pyval

text \<open>The condition of the \<open>contains\<close> comprehension:
  \<open>field in c and c[field] and value.lower() in str(c[field]).lower()\<close>.\<close>

definition contains_test :: "string \<Rightarrow> pyval \<Rightarrow> contact \<Rightarrow> py_error + bool" where
  "contains_test f v c =
     (case contact_get c f of
        None \<Rightarrow> Inr False
      | Some x \<Rightarrow>
          if \<not> py_truthy x then Inr False
          else (case v of
                  PStr s \<Rightarrow> Inr (py_in (py_lower s) (py_lower (py_str x)))
                | _ \<Rightarrow> Inl AttributeError))"

text \<open>\<open>c.get(field) == value\<close> and \<open>c.get(field, 0) >= value\<close>.\<close>

definition equals_test :: "string \<Rightarrow> pyval \<Rightarrow> contact \<Rightarrow> bool" where
  "equals_test f v c = py_eq (case contact_get c f of None \<Rightarrow> PNone | Some x \<Rightarrow> x) v"

definition gte_test :: "string \<Rightarrow> pyval \<Rightarrow> contact \<Rightarrow> py_error + bool" where
  "gte_test f v c = py_ge (case contact_get c f of None \<Rightarrow> PInt 0 | Some x \<Rightarrow> x) v"

text \<open>One turn of the loop over \<open>where_clauses\<close>: the \<open>if\<close>/\<open>elif\<close> chain on the
  operator, each branch guarded by the truth value of the field name.\<close>

definition apply_clause :: "clause \<Rightarrow> contact list \<Rightarrow> py_error + contact list" where
  "apply_clause cl contacts =
     (let f = (case field cl of None \<Rightarrow> [] | Some k \<Rightarrow> k);
          v = cvalue cl
      in if operator cl = PStr ''contains'' \<and> truthy (field cl) then
           filter_raise (contains_test f v) contacts
         else if operator cl = PStr ''equals'' \<and> truthy (field cl) then
           Inr (filter (equals_test f v) contacts)
         else if operator cl = PStr ''gte'' \<and> truthy (field cl) then
           filter_raise (gte_test f v) contacts
         else Inr contacts)"

fun apply_clauses :: "clause list \<Rightarrow> contact list \<Rightarrow> py_error + contact list" where
  "apply_clauses [] contacts = Inr contacts"
| "apply_clauses (cl # cls) contacts =
     (case apply_clause cl contacts of
        Inl e \<Rightarrow> Inl e
      | Inr contacts' \<Rightarrow> apply_clauses cls contacts')"

text \<open>The five typed filters, in the order of the source.  \<open>min_quality_score\<close> and
  \<open>is_executive\<close> are tested against \<open>None\<close>, the three strings for truth.\<close>

definition apply_typed_filters ::
  "int option \<Rightarrow> bool option \<Rightarrow> string option \<Rightarrow> string option \<Rightarrow> string option
     \<Rightarrow> contact list \<Rightarrow> contact list" where
  "apply_typed_filters min_quality_score is_executive country_f industry_f contact_state contacts =
     (let contacts = (case min_quality_score of None \<Rightarrow> contacts
                      | Some m \<Rightarrow> filter (\<lambda>c. m \<le> qualityScore c) contacts);
          contacts = (case is_executive of None \<Rightarrow> contacts
                      | Some b \<Rightarrow> filter (\<lambda>c. isExecutive c = b) contacts);
          contacts = (if truthy country_f then filter (\<lambda>c. country c = country_f) contacts
                      else contacts);
          contacts = (if truthy industry_f then filter (\<lambda>c. industry c = industry_f) contacts
                      else contacts);
          contacts = (if truthy contact_state
                      then filter (\<lambda>c. Some (contactState c) = contact_state) contacts
                      else contacts)
      in contacts)"

text \<open>\<open>if where_clauses:\<close> skips \<open>None\<close> and the empty list.\<close>

definition apply_where :: "clause list option \<Rightarrow> contact list \<Rightarrow> py_error + contact list" where
  "apply_where where_clauses contacts =
     (case where_clauses of
        None \<Rightarrow> Inr contacts
      | Some cls \<Rightarrow> if cls = [] then Inr contacts else apply_clauses cls contacts)"

text \<open>The contact list after every filter and before the limit.\<close>

definition filtered_contacts ::
  "contact list \<Rightarrow> clause list option \<Rightarrow> int option \<Rightarrow> bool option \<Rightarrow> string option
     \<Rightarrow> string option \<Rightarrow> string option \<Rightarrow> py_error + contact list" where
  "filtered_contacts contacts where_clauses min_quality_score is_executive country_f industry_f
       contact_state =
     apply_where where_clauses
       (apply_typed_filters min_quality_score is_executive country_f industry_f contact_state
          contacts)"

text \<open>The typed filters as the specification words them: optional conditions on one
  contact, combined by AND.\<close>

definition typed_match ::
  "int option \<Rightarrow> bool option \<Rightarrow> string option \<Rightarrow> string option \<Rightarrow> string option
     \<Rightarrow> contact \<Rightarrow> bool" where
  "typed_match min_quality_score is_executive country_f industry_f contact_state c =
     ((case min_quality_score of None \<Rightarrow> True | Some m \<Rightarrow> m \<le> qualityScore c)
      \<and> (case is_executive of None \<Rightarrow> True | Some b \<Rightarrow> isExecutive c = b)
      \<and> (if truthy country_f then country c = country_f else True)
      \<and> (if truthy industry_f then industry c = industry_f else True)
      \<and> (if truthy contact_state then Some (contactState c) = contact_state else True))"

text \<open>The eleven fields returned for a contact.\<close>

record minimal_contact =
  m_id :: string
  m_firstName :: "string option"
  m_lastName :: "string option"
  m_email :: string
  m_title :: "string option"
  m_companyName :: "string option"
  m_industry :: "string option"
  m_country :: "string option"
  m_qualityScore :: int
  m_isExecutive :: bool
  m_contactState :: string

definition minimal :: "contact \<Rightarrow> minimal_contact" where
  "minimal c =
     \<lparr> m_id = id' c, m_firstName = firstName c, m_lastName = lastName c, m_email = email c,
       m_title = title c, m_companyName = companyName c, m_industry = industry c,
       m_country = country c, m_qualityScore = qualityScore c, m_isExecutive = isExecutive c,
       m_contactState = contactState c \<rparr>"

record applied_filters =
  f_min_quality_score :: "int option"
  f_is_executive :: "bool option"
  f_country :: "string option"
  f_industry :: "string option"
  f_contact_state :: "string option"

record query_result =
  contacts :: "minimal_contact list"
  total' :: nat
  returned :: nat
  filters_applied :: applied_filters

text \<open>The body of \<open>query_contacts_tool\<close> after the load.\<close>

definition query_contacts ::
  "contact list \<Rightarrow> clause list option \<Rightarrow> int option \<Rightarrow> bool option \<Rightarrow> string option
     \<Rightarrow> string option \<Rightarrow> string option \<Rightarrow> int \<Rightarrow> py_error + query_result" where
  "query_contacts loaded where_clauses min_quality_score is_executive country_f industry_f
       contact_state limit =
     (case filtered_contacts loaded where_clauses min_quality_score is_executive country_f
             industry_f contact_state of
        Inl e \<Rightarrow> Inl e
      | Inr cs \<Rightarrow>
          (let limited = py_take limit cs;
               minimal_list = map minimal limited
           in Inr \<lparr> contacts = minimal_list,
                    total' = length cs,
                    returned = length minimal_list,
                    filters_applied =
                      \<lparr> f_min_quality_score = min_quality_score,
                        f_is_executive = is_executive,
                        f_country = country_f,
                        f_industry = industry_f,
                        f_contact_state = contact_state \<rparr> \<rparr>))"

definition query_contacts_tool ::
  "RawRecord list option \<Rightarrow> clause list option \<Rightarrow> int option \<Rightarrow> bool option \<Rightarrow> string option
     \<Rightarrow> string option \<Rightarrow> string option \<Rightarrow> int \<Rightarrow> py_error + query_result" where
  "query_contacts_tool csv where_clauses min_quality_score is_executive country_f industry_f
       contact_state limit =
     (case load_contacts_from_csv csv of
        Inl e \<Rightarrow> Inl e
      | Inr loaded \<Rightarrow>
          query_contacts loaded where_clauses min_quality_score is_executive country_f
            industry_f contact_state limit)"

section \<open>Stats aggregator: \<open>get_contact_stats_tool\<close>\<close>

text \<open>
  A counting dictionary keeps its keys in insertion order: an association list with
  one entry per key.  \<open>d[k] = d.get(k, 0) + 1\<close> overwrites the entry of \<open>k\<close> in place
  or appends a new one.
\<close>

type_synonym counter = "(string \<times> nat) list"

definition counter_get :: "counter \<Rightarrow> string \<Rightarrow> nat" where
  "counter_get d k = (case map_of d k of None \<Rightarrow> 0 | Some n \<Rightarrow> n)"

definition bump :: "string \<Rightarrow> counter \<Rightarrow> counter" where
  "bump k d = AList.update k (counter_get d k + 1) d"

text \<open>The loop \<open>for c in contacts: d[key(c)] = d.get(key(c), 0) + 1\<close> from an empty
  dictionary.\<close>

definition count_by :: "(contact \<Rightarrow> string) \<Rightarrow> contact list \<Rightarrow> counter" where
  "count_by key cs = fold (\<lambda>c d. bump (key c) d) cs []"

text \<open>\<open>str(c.get(group_by, 'Unknown'))\<close>\<close>

definition group_key :: "string \<Rightarrow> contact \<Rightarrow> string" where
  "group_key group_by c =
     py_str (case contact_get c group_by of None \<Rightarrow> PStr ''Unknown'' | Some v \<Rightarrow> v)"

record high_value_targets =
  executives :: nat
  verifiedNotContacted :: nat
  highQualityNotContacted :: nat

record contact_stats =
  stats_total :: nat
  byState :: counter
  byStage :: counter
  highValueTargets :: high_value_targets
  avgQualityScore :: rat
  breakdown :: "counter option"

text \<open>
  The body of \<open>get_contact_stats_tool\<close> after the load.  The mean is a float in the
  source; floating point is not modelled, so \<open>round1\<close> stands for the float that
  \<open>round(s / n, 1)\<close> yields on the quotient of the two integers.  On an empty list the
  source rounds the integer 0, and \<open>round(0, 1)\<close> is the integer 0.
\<close>

definition get_contact_stats ::
  "(rat \<Rightarrow> rat) \<Rightarrow> contact list \<Rightarrow> string option \<Rightarrow> contact_stats" where
  "get_contact_stats round1 loaded group_by =
     (let by_state = count_by contactState loaded;
          by_stage = count_by stage loaded;
          n_executives = length (filter isExecutive loaded);
          verified_not_contacted =
            length (filter (\<lambda>c. emailStatus c = ''Verified'' \<and> contactState c = ''NOT_CONTACTED'')
                      loaded);
          high_quality_not_contacted =
            length (filter (\<lambda>c. 70 \<le> qualityScore c
                               \<and> List.member [''NOT_CONTACTED'', ''INTERESTED_NOT_CONTACTED'']
                                    (contactState c)) loaded);
          avg_quality =
            (if loaded \<noteq> []
             then round1 (of_int (sum_list (map qualityScore loaded)) / of_nat (length loaded))
             else 0);
          group_breakdown =
            (if truthy group_by
             then Some (count_by (group_key (case group_by of None \<Rightarrow> [] | Some g \<Rightarrow> g)) loaded)
             else None)
      in \<lparr> stats_total = length loaded,
           byState = by_state,
           byStage = by_stage,
           highValueTargets =
             \<lparr> executives = n_executives,
               verifiedNotContacted = verified_not_contacted,
               highQualityNotContacted = high_quality_not_contacted \<rparr>,
           avgQualityScore = avg_quality,
           breakdown = group_breakdown \<rparr>)"

definition get_contact_stats_tool ::
  "(rat \<Rightarrow> rat) \<Rightarrow> RawRecord list option \<Rightarrow> string option \<Rightarrow> py_error + contact_stats" where
  "get_contact_stats_tool round1 csv group_by =
     (case load_contacts_from_csv csv of
        Inl e \<Rightarrow> Inl e
      | Inr loaded \<Rightarrow> Inr (get_contact_stats round1 loaded group_by))"

section \<open>Relevance ranker: \<open>vector_search_contacts_tool\<close>\<close>

definition terms :: "string list" where
  "terms = [''fintech'', ''payment'', ''saas'', ''travel'', ''cfo'', ''ceo'', ''executive'',
            ''colombia'', ''mexico'']"

text \<open>\<open>[term for term in terms if term in query_lower]\<close>\<close>

definition extract_keywords :: "string \<Rightarrow> string list" where
  "extract_keywords query = (let query_lower = py_lower query in filter (\<lambda>t. py_in t query_lower) terms)"

text \<open>
  The text a contact is scored on.  \<open>c.get('title', '')\<close> finds the key in every
  contact, so a stored \<open>None\<close> is handed to \<open>' '.join\<close>, which raises
  \<open>TypeError\<close> on an item that is not a string.
\<close>

definition contact_text :: "contact \<Rightarrow> py_error + string" where
  "contact_text c =
     (case (title c, companyName c, industry c) of
        (Some t, Some n, Some i) \<Rightarrow>
          Inr (py_lower (py_join '' '' [t, n, i, py_join '' '' (keywords' c),
                                        py_join '' '' (technologies c)]))
      | _ \<Rightarrow> Inl TypeError)"

text \<open>The inner loop \<open>for keyword in keywords: if keyword in text: score += 1\<close>.\<close>

definition keyword_score :: "string list \<Rightarrow> string \<Rightarrow> int" where
  "keyword_score kws blob = fold (\<lambda>keyword score. if py_in keyword blob then score + 1 else score) kws 0"

text \<open>The outer loop: the contacts with a positive score, paired with it, in the order
  of the loaded list.\<close>

fun score_contacts :: "string list \<Rightarrow> contact list \<Rightarrow> py_error + (contact \<times> int) list" where
  "score_contacts kws [] = Inr []"
| "score_contacts kws (c # cs) =
     (case contact_text c of
        Inl e \<Rightarrow> Inl e
      | Inr blob \<Rightarrow>
          (let score = keyword_score kws blob
           in case score_contacts kws cs of
                Inl e \<Rightarrow> Inl e
              | Inr rest \<Rightarrow> Inr (if 0 < score then (c, score) # rest else rest)))"

text \<open>
  \<open>scored_contacts.sort(key=lambda x: x[1], reverse=True)\<close>.  The sort is stable;
  with \<open>reverse=True\<close> the list is reversed, sorted in ascending order of the key and
  reversed again, which keeps items of equal key in their original order.
\<close>

definition sort_by_score_desc :: "('a \<times> int) list \<Rightarrow> ('a \<times> int) list" where
  "sort_by_score_desc xs = rev (sort_key snd (rev xs))"

text \<open>The three \<open>continue\<close> tests of the filter loop; \<open>min_quality_score\<close> and
  \<open>country\<close> are tested for truth, \<open>is_executive\<close> against \<open>None\<close>.\<close>

definition passes_filters :: "int option \<Rightarrow> bool option \<Rightarrow> string option \<Rightarrow> contact \<Rightarrow> bool" where
  "passes_filters min_quality_score is_executive country_f c =
     (\<not> ((case min_quality_score of None \<Rightarrow> False | Some m \<Rightarrow> m \<noteq> 0 \<and> qualityScore c < m))
      \<and> \<not> ((case is_executive of None \<Rightarrow> False | Some b \<Rightarrow> isExecutive c \<noteq> b))
      \<and> \<not> (truthy country_f \<and> country c \<noteq> country_f))"

record search_hit = minimal_contact +
  relevanceScore :: rat

text \<open>\<open>score / len(keywords) if keywords else 0\<close>, the exact quotient.\<close>

definition relevance :: "string list \<Rightarrow> int \<Rightarrow> rat" where
  "relevance kws score = (if kws \<noteq> [] then of_int score / of_nat (length kws) else 0)"

definition search_hit_of :: "string list \<Rightarrow> contact \<times> int \<Rightarrow> search_hit" where
  "search_hit_of kws p =
     (case p of (c, score) \<Rightarrow>
        \<lparr> m_id = id' c, m_firstName = firstName c, m_lastName = lastName c, m_email = email c,
          m_title = title c, m_companyName = companyName c, m_industry = industry c,
          m_country = country c, m_qualityScore = qualityScore c, m_isExecutive = isExecutive c,
          m_contactState = contactState c, relevanceScore = relevance kws score \<rparr>)"

record search_result =
  results :: "search_hit list"
  totalMatched :: nat
  searchQuery :: string
  extractedKeywords :: "string list"
  note_text :: string

text \<open>The body of \<open>vector_search_contacts_tool\<close> after the load.\<close>

definition vector_search_contacts ::
  "contact list \<Rightarrow> string \<Rightarrow> int \<Rightarrow> int option \<Rightarrow> bool option \<Rightarrow> string option
     \<Rightarrow> py_error + search_result" where
  "vector_search_contacts loaded query top_k min_quality_score is_executive country_f =
     (let kws = extract_keywords query
      in case score_contacts kws loaded of
           Inl e \<Rightarrow> Inl e
         | Inr scored_contacts \<Rightarrow>
             (let sorted_contacts = sort_by_score_desc scored_contacts;
                  filtered =
                    filter (\<lambda>p. passes_filters min_quality_score is_executive country_f (fst p))
                      sorted_contacts;
                  filtered = py_take top_k filtered;
                  hits = map (search_hit_of kws) filtered
              in Inr \<lparr> results = hits,
                       totalMatched = length hits,
                       searchQuery = query,
                       extractedKeywords = kws,
                       note_text = ''Using keyword-based fallback. Run embedding generation for true semantic search.'' \<rparr>))"

definition vector_search_contacts_tool ::
  "RawRecord list option \<Rightarrow> string \<Rightarrow> int \<Rightarrow> int option \<Rightarrow> bool option \<Rightarrow> string option
     \<Rightarrow> py_error + search_result" where
  "vector_search_contacts_tool csv query top_k min_quality_score is_executive country_f =
     (case load_contacts_from_csv csv of
        Inl e \<Rightarrow> Inl e
      | Inr loaded \<Rightarrow>
          vector_search_contacts loaded query top_k min_quality_score is_executive country_f)"

section \<open>Example contacts\<close>

text \<open>A contact with the given id, title, company name, industry, quality score and
  executive flag, and defaults elsewhere; the concrete inputs below are built from it.\<close>

definition example_contact ::
  "string \<Rightarrow> string option \<Rightarrow> string option \<Rightarrow> string option \<Rightarrow> int \<Rightarrow> bool \<Rightarrow> contact" where
  "example_contact i t n ind q e =
     \<lparr> id' = i, firstName = None, lastName = None, email = [], emailStatus = ''User Managed'',
       title = t, seniority = None, linkedinUrl = None, country = None, city = None,
       companyName = n, companyWebsite = None, companySize = 0,
       companySizeBucket = ''1-10 (Micro)'', industry = ind, technologies = [], keywords' = [],
       stage = ''Cold'', contactState = ''INCOMPLETE'', qualityScore = q, isExecutive = e \<rparr>"

section \<open>Properties of the record normaliser\<close>

subsection \<open>Quality score\<close>

lemma add_if_pts: "(if b then (s::int) + w else s) = s + (if b then w else 0)"
  by simp

lemma calculate_quality_score_sum:
  "calculate_quality_score r = weighted_sum quality_checks r"
  unfolding calculate_quality_score_def weighted_sum_def quality_checks_def Let_def
  by (simp only: add_if_pts list.map sum_list.Cons sum_list.Nil prod.case)

lemma weighted_sum_bounds:
  "list_all (\<lambda>(w, chk). 0 \<le> w) checks \<Longrightarrow>
     0 \<le> weighted_sum checks r \<and> weighted_sum checks r \<le> sum_list (map fst checks)"
  unfolding weighted_sum_def
  by (induction checks) (auto split: prod.splits)

lemma quality_weights_total: "sum_list (map fst quality_checks) = 100"
  by (simp add: quality_checks_def)

lemma quality_weights_nonneg: "list_all (\<lambda>(w, chk). 0 \<le> w) quality_checks"
  by (simp add: quality_checks_def)

lemma transform_qualityScore:
  "transform_apollo_to_contact r = Inr c \<Longrightarrow> qualityScore c = calculate_quality_score r"
  by (auto simp: transform_apollo_to_contact_def Let_def split: option.splits)


subsection \<open>Construction of a contact\<close>

lemma transform_Inr_iff:
  "(\<exists>c. transform_apollo_to_contact r = Inr c \<and> companySize c = n)
     = (py_int (employees_text r) = Some n)"
  by (auto simp: transform_apollo_to_contact_def Let_def split: option.splits)


lemma transform_size_bucket:
  "transform_apollo_to_contact r = Inr c \<Longrightarrow> companySizeBucket c = size_bucket (companySize c)"
  by (auto simp: transform_apollo_to_contact_def Let_def split: option.splits)

lemma py_int_zero: "py_int ''0'' = Some 0"
  by (simp add: py_int_def int_space_def is_digit_def digit_val_def)




subsection \<open>Contact state\<close>

text \<open>
  Claim C2.  \<open>determine_contact_state\<close> takes the first match in the order REPLIED,
  DEMOED, BOUNCED, OPENED, SENT, then the classification by email, then INCOMPLETE.  A
  set replied flag gives REPLIED whatever the other flags are, a record without an
  email and without a set flag is INCOMPLETE whatever its stage is, and no record without
  an email is classified by its stage.
\<close>

theorem contact_state_priority:
  "(flag_set r ''Replied'' \<longrightarrow> determine_contact_state r = ''REPLIED'')
   \<and> (\<not> flag_set r ''Replied'' \<and> flag_set r ''Demoed'' \<longrightarrow>
        determine_contact_state r = ''DEMOED'')
   \<and> (\<not> flag_set r ''Replied'' \<and> \<not> flag_set r ''Demoed'' \<and> flag_set r ''Email Bounced'' \<longrightarrow>
        determine_contact_state r = ''BOUNCED'')
   \<and> (\<not> flag_set r ''Replied'' \<and> \<not> flag_set r ''Demoed'' \<and> \<not> flag_set r ''Email Bounced''
        \<and> flag_set r ''Email Open'' \<longrightarrow> determine_contact_state r = ''OPENED'')
   \<and> (\<not> flag_set r ''Replied'' \<and> \<not> flag_set r ''Demoed'' \<and> \<not> flag_set r ''Email Bounced''
        \<and> \<not> flag_set r ''Email Open'' \<and> flag_set r ''Email Sent'' \<longrightarrow>
        determine_contact_state r = ''SENT'')
   \<and> (\<not> flag_set r ''Replied'' \<and> \<not> flag_set r ''Demoed'' \<and> \<not> flag_set r ''Email Bounced''
        \<and> \<not> flag_set r ''Email Open'' \<and> \<not> flag_set r ''Email Sent'' \<and> truthy (r ''Email'') \<longrightarrow>
        determine_contact_state r =
          (if r ''Stage'' = Some ''Interested'' then ''INTERESTED_NOT_CONTACTED''
           else ''NOT_CONTACTED''))
   \<and> (\<not> flag_set r ''Replied'' \<and> \<not> flag_set r ''Demoed'' \<and> \<not> flag_set r ''Email Bounced''
        \<and> \<not> flag_set r ''Email Open'' \<and> \<not> flag_set r ''Email Sent'' \<and> \<not> truthy (r ''Email'') \<longrightarrow>
        determine_contact_state r = ''INCOMPLETE'')
   \<and> (\<not> truthy (r ''Email'') \<longrightarrow>
        determine_contact_state r \<noteq> ''INTERESTED_NOT_CONTACTED''
        \<and> determine_contact_state r \<noteq> ''NOT_CONTACTED'')"
  by (simp add: determine_contact_state_def Let_def split: option.splits)

text \<open>One record per branch; the first has replied and bounced both set, the last has
  no email and the stage \<open>Interested\<close>.\<close>

theorem contact_state_priority_witness:
  "determine_contact_state
      (Map.empty(''Replied'' \<mapsto> ''true'', ''Email Bounced'' \<mapsto> ''true'')) = ''REPLIED''
   \<and> determine_contact_state
      (Map.empty(''Demoed'' \<mapsto> ''True'', ''Email Sent'' \<mapsto> ''true'')) = ''DEMOED''
   \<and> determine_contact_state
      (Map.empty(''Email Bounced'' \<mapsto> ''true'', ''Email Open'' \<mapsto> ''true'')) = ''BOUNCED''
   \<and> determine_contact_state
      (Map.empty(''Email Open'' \<mapsto> ''true'', ''Email Sent'' \<mapsto> ''true'')) = ''OPENED''
   \<and> determine_contact_state
      (Map.empty(''Email Sent'' \<mapsto> ''true'', ''Replied'' \<mapsto> ''false'')) = ''SENT''
   \<and> determine_contact_state
      (Map.empty(''Email'' \<mapsto> ''a@b.co'', ''Stage'' \<mapsto> ''Interested'')) = ''INTERESTED_NOT_CONTACTED''
   \<and> determine_contact_state
      (Map.empty(''Email'' \<mapsto> ''a@b.co'', ''Stage'' \<mapsto> ''Cold'')) = ''NOT_CONTACTED''
   \<and> determine_contact_state (Map.empty(''Stage'' \<mapsto> ''Interested'')) = ''INCOMPLETE''"
  using
    contact_state_priority [of "Map.empty(''Replied'' \<mapsto> ''true'', ''Email Bounced'' \<mapsto> ''true'')"]
    contact_state_priority [of "Map.empty(''Demoed'' \<mapsto> ''True'', ''Email Sent'' \<mapsto> ''true'')"]
    contact_state_priority [of "Map.empty(''Email Bounced'' \<mapsto> ''true'', ''Email Open'' \<mapsto> ''true'')"]
    contact_state_priority [of "Map.empty(''Email Open'' \<mapsto> ''true'', ''Email Sent'' \<mapsto> ''true'')"]
    contact_state_priority [of "Map.empty(''Email Sent'' \<mapsto> ''true'', ''Replied'' \<mapsto> ''false'')"]
    contact_state_priority [of "Map.empty(''Email'' \<mapsto> ''a@b.co'', ''Stage'' \<mapsto> ''Interested'')"]
    contact_state_priority [of "Map.empty(''Email'' \<mapsto> ''a@b.co'', ''Stage'' \<mapsto> ''Cold'')"]
    contact_state_priority [of "Map.empty(''Stage'' \<mapsto> ''Interested'')"]
  by (simp add: flag_set_def truthy_def)

subsection \<open>Presence of a field\<close>




subsection \<open>Range of the quality score\<close>

text \<open>
  Claim C4.  The quality score lies between 0 and 100; it is the sum of the thirteen
  weighted checks, whose weights add up to 100; the contact built from a record carries
  exactly that score; and the score is a function of the record alone, so equal records
  score alike.
\<close>

theorem quality_score_range:
  "0 \<le> calculate_quality_score r \<and> calculate_quality_score r \<le> 100
   \<and> calculate_quality_score r = weighted_sum quality_checks r
   \<and> sum_list (map fst quality_checks) = 100
   \<and> (\<forall>c. transform_apollo_to_contact r = Inr c \<longrightarrow> qualityScore c = calculate_quality_score r)
   \<and> (\<forall>r'. r' = r \<longrightarrow> calculate_quality_score r' = calculate_quality_score r)"
  using weighted_sum_bounds [OF quality_weights_nonneg, of r]
  by (simp add: calculate_quality_score_sum quality_weights_total transform_qualityScore)

theorem quality_score_range_witness:
  "(\<exists>c. transform_apollo_to_contact (Map.empty(''First Name'' \<mapsto> ''Ada'', ''Email'' \<mapsto> ''a@b.co''))
          = Inr c \<and> qualityScore c = 15)
   \<and> calculate_quality_score (Map.empty(''First Name'' \<mapsto> ''Ada'', ''Email'' \<mapsto> ''a@b.co'')) = 15"
proof -
  let ?r = "Map.empty(''First Name'' \<mapsto> ''Ada'', ''Email'' \<mapsto> ''a@b.co'')"
  have s: "weighted_sum quality_checks ?r = 15"
    by (simp add: weighted_sum_def quality_checks_def truthy_def)
  have "py_int (employees_text ?r) = Some 0"
    by (simp add: employees_text_def get_default_def py_int_zero)
  then obtain c where c: "transform_apollo_to_contact ?r = Inr c"
    using transform_Inr_iff [of ?r 0] by blast
  from quality_score_range [of ?r] c s
  have "qualityScore c = 15" "calculate_quality_score ?r = 15" by simp_all
  with c show ?thesis by blast
qed

subsection \<open>Company size bucket\<close>

text \<open>
  Claim C5.  The five buckets partition the employee counts: each count falls in exactly
  the bucket whose range holds it, the upper bound of a range belongs to that range
  (10, 50, 200, 500) and the next count (11, 51, 201, 501) to the next bucket.
\<close>

theorem size_bucket_partition:
  "(size_bucket n = ''1-10 (Micro)'') = (n \<le> 10)
   \<and> (size_bucket n = ''11-50 (Small)'') = (11 \<le> n \<and> n \<le> 50)
   \<and> (size_bucket n = ''51-200 (Medium)'') = (51 \<le> n \<and> n \<le> 200)
   \<and> (size_bucket n = ''201-500 (Large)'') = (201 \<le> n \<and> n \<le> 500)
   \<and> (size_bucket n = ''500+ (Enterprise)'') = (501 \<le> n)
   \<and> size_bucket 10 = ''1-10 (Micro)'' \<and> size_bucket 11 = ''11-50 (Small)''
   \<and> size_bucket 50 = ''11-50 (Small)'' \<and> size_bucket 51 = ''51-200 (Medium)''
   \<and> size_bucket 200 = ''51-200 (Medium)'' \<and> size_bucket 201 = ''201-500 (Large)''
   \<and> size_bucket 500 = ''201-500 (Large)'' \<and> size_bucket 501 = ''500+ (Enterprise)''"
  by (simp add: size_bucket_def)

section \<open>Properties of the filter engine\<close>

lemma py_take_nonneg: "0 \<le> n \<Longrightarrow> py_take n xs = take (nat n) xs"
  by (simp add: py_take_def)

lemma query_contacts_Inr:
  "filtered_contacts loaded wc mq ie co ind cs = Inr fs \<Longrightarrow>
     query_contacts loaded wc mq ie co ind cs limit =
       Inr \<lparr> contacts = map minimal (py_take limit fs), total' = length fs,
             returned = length (py_take limit fs),
             filters_applied = \<lparr> f_min_quality_score = mq, f_is_executive = ie, f_country = co,
               f_industry = ind, f_contact_state = cs \<rparr> \<rparr>"
  by (simp add: query_contacts_def Let_def)

lemma apply_typed_filters_eq:
  "apply_typed_filters mq ie co ind cs loaded = filter (typed_match mq ie co ind cs) loaded"
  unfolding apply_typed_filters_def typed_match_def Let_def
  by (cases mq; cases ie; cases "truthy co"; cases "truthy ind"; cases "truthy cs")
     (simp_all add: conj_commute conj_left_commute cong: conj_cong)

lemma filtered_contacts_typed_only:
  "filtered_contacts loaded None mq ie co ind cs = Inr (filter (typed_match mq ie co ind cs) loaded)"
  by (simp add: filtered_contacts_def apply_where_def apply_typed_filters_eq)

text \<open>
  Claim C6, as the code has it.  For a limit that is not negative: whenever the filters
  run through to a list \<open>fs\<close>, \<open>query_contacts\<close> returns, its \<open>total\<close> is the
  length of \<open>fs\<close>, its contacts are the first \<open>min limit total\<close> items of \<open>fs\<close>
  in the same order (in their minimal form), \<open>returned\<close> is their number, and so the
  total is at least the number of contacts returned.  With typed filters alone the
  filters always run through, and \<open>fs\<close> is the list of the loaded contacts that meet
  every given condition.
\<close>

theorem query_total_and_prefix:
  assumes "0 \<le> limit"
  shows "(\<forall>fs. filtered_contacts loaded wc mq ie co ind cs = Inr fs \<longrightarrow>
           (\<exists>res. query_contacts loaded wc mq ie co ind cs limit = Inr res
              \<and> total' res = length fs
              \<and> contacts res = map minimal (take (nat limit) fs)
              \<and> length (contacts res) = min (nat limit) (total' res)
              \<and> returned res = length (contacts res)
              \<and> length (contacts res) \<le> total' res))
     \<and> (\<exists>res. query_contacts loaded None mq ie co ind cs limit = Inr res
              \<and> total' res = length (filter (typed_match mq ie co ind cs) loaded)
              \<and> contacts res
                   = map minimal (take (nat limit) (filter (typed_match mq ie co ind cs) loaded)))"
  using assms
  by (simp add: query_contacts_Inr py_take_nonneg filtered_contacts_typed_only min.commute)

text \<open>Three contacts, a typed filter on the score and the executive flag, one
  \<open>contains\<close> clause and the limit 1: two contacts pass, the first is returned.\<close>

theorem query_total_and_prefix_witness:
  "\<exists>res. query_contacts
      [example_contact ''1'' (Some ''CEO'') None (Some ''Fintech'') 80 True,
       example_contact ''2'' (Some ''Analyst'') None (Some ''Travel'') 40 False,
       example_contact ''3'' (Some ''CTO'') None (Some ''Fintech'') 75 True]
      (Some [\<lparr> field = Some ''industry'', operator = PStr ''contains'', cvalue = PStr ''FIN'' \<rparr>])
      (Some 50) (Some True) None None None 1 = Inr res
     \<and> total' res = 2
     \<and> contacts res = [minimal (example_contact ''1'' (Some ''CEO'') None (Some ''Fintech'') 80 True)]
     \<and> returned res = 1"
proof -
  let ?cs = "[example_contact ''1'' (Some ''CEO'') None (Some ''Fintech'') 80 True,
       example_contact ''2'' (Some ''Analyst'') None (Some ''Travel'') 40 False,
       example_contact ''3'' (Some ''CTO'') None (Some ''Fintech'') 75 True]"
  let ?wc = "Some [\<lparr> field = Some ''industry'', operator = PStr ''contains'', cvalue = PStr ''FIN'' \<rparr>]"
  have f: "filtered_contacts ?cs ?wc (Some 50) (Some True) None None None
     = Inr [example_contact ''1'' (Some ''CEO'') None (Some ''Fintech'') 80 True,
            example_contact ''3'' (Some ''CTO'') None (Some ''Fintech'') 75 True]"
    by (simp add: filtered_contacts_def apply_typed_filters_def apply_where_def apply_clause_def
        truthy_def contains_test_def contact_get_def opt_str_def example_contact_def
        py_lower_def py_lower_char_def)
  have l: "(0::int) \<le> 1" by simp
  from query_total_and_prefix [OF l, THEN conjunct1, THEN spec, THEN mp, OF f]
  show ?thesis by fastforce
qed

text \<open>Claim C6 as stated fails: not every combination of clauses has a filtered
  list.  The clause \<open>title gte 3\<close> compares a string with a number, and the query
  raises \<open>TypeError\<close> instead of returning a total and a prefix.\<close>

theorem query_gte_type_error_counterexample:
  "query_contacts [example_contact ''1'' (Some ''CEO'') None (Some ''Fintech'') 80 True]
      (Some [\<lparr> field = Some ''title'', operator = PStr ''gte'', cvalue = PInt 3 \<rparr>])
      None None None None None 50 = Inl TypeError"
  by (simp add: query_contacts_def filtered_contacts_def apply_typed_filters_def apply_where_def
      apply_clause_def truthy_def gte_test_def contact_get_def opt_str_def example_contact_def)

lemma apply_clauses_append:
  "apply_clauses (xs @ ys) cs =
     (case apply_clauses xs cs of Inl e \<Rightarrow> Inl e | Inr cs' \<Rightarrow> apply_clauses ys cs')"
  by (induction xs arbitrary: cs) (auto split: sum.splits)

lemma apply_clause_unknown:
  "operator cl \<noteq> PStr ''contains'' \<Longrightarrow> operator cl \<noteq> PStr ''equals'' \<Longrightarrow>
     operator cl \<noteq> PStr ''gte'' \<Longrightarrow> apply_clause cl cs = Inr cs"
  by (simp add: apply_clause_def)

lemma apply_clauses_insert_unknown:
  assumes "apply_clause cl = Inr"
  shows "apply_clauses (xs @ cl # ys) cs = apply_clauses (xs @ ys) cs"
  using assms by (simp add: apply_clauses_append split: sum.splits)

lemma apply_where_insert_unknown:
  assumes "apply_clause cl = Inr"
  shows "apply_where (Some (xs @ cl # ys)) cs = apply_where (Some (xs @ ys)) cs"
proof (cases "xs @ ys = []")
  case True
  with assms show ?thesis by (simp add: apply_where_def)
next
  case False
  then show ?thesis
    using apply_clauses_insert_unknown [OF assms] by (simp add: apply_where_def)
qed

text \<open>
  Claim C7.  A clause whose operator is none of \<open>contains\<close>, \<open>equals\<close>, \<open>gte\<close>
  leaves the contact list as it is and raises nothing; so a query gives the same result,
  contacts and total (or the same exception of another clause), with the clause put
  anywhere in the clause list as without it.
\<close>

theorem unknown_operator_ignored:
  assumes "operator cl \<noteq> PStr ''contains'' \<and> operator cl \<noteq> PStr ''equals''
           \<and> operator cl \<noteq> PStr ''gte''"
  shows "apply_clause cl loaded = Inr loaded
     \<and> query_contacts loaded (Some (xs @ cl # ys)) mq ie co ind cs limit
         = query_contacts loaded (Some (xs @ ys)) mq ie co ind cs limit
     \<and> query_contacts loaded (Some [cl]) mq ie co ind cs limit
         = query_contacts loaded None mq ie co ind cs limit"
proof -
  from assms have u: "apply_clause cl = Inr"
    by (intro ext) (simp add: apply_clause_unknown)
  have "query_contacts loaded (Some [cl]) mq ie co ind cs limit
         = query_contacts loaded None mq ie co ind cs limit"
    by (simp add: query_contacts_def filtered_contacts_def apply_where_def u)
  moreover have "query_contacts loaded (Some (xs @ cl # ys)) mq ie co ind cs limit
         = query_contacts loaded (Some (xs @ ys)) mq ie co ind cs limit"
    by (simp only: query_contacts_def filtered_contacts_def apply_where_insert_unknown [OF u])
  ultimately show ?thesis using u by simp
qed

text \<open>The operator \<open>startswith\<close> between two known clauses, and a clause without
  an operator as the only clause.\<close>

theorem unknown_operator_ignored_witness:
  "apply_clause \<lparr> field = Some ''title'', operator = PStr ''startswith'', cvalue = PStr ''C'' \<rparr>
      [example_contact ''1'' (Some ''CEO'') None (Some ''Fintech'') 80 True]
     = Inr [example_contact ''1'' (Some ''CEO'') None (Some ''Fintech'') 80 True]
   \<and> query_contacts
       [example_contact ''1'' (Some ''CEO'') None (Some ''Fintech'') 80 True,
        example_contact ''2'' (Some ''Analyst'') None (Some ''Travel'') 40 False]
       (Some [\<lparr> field = Some ''industry'', operator = PStr ''equals'', cvalue = PStr ''Travel'' \<rparr>,
              \<lparr> field = Some ''title'', operator = PStr ''startswith'', cvalue = PStr ''C'' \<rparr>,
              \<lparr> field = Some ''qualityScore'', operator = PStr ''gte'', cvalue = PInt 30 \<rparr>])
       None None None None None 50
     = query_contacts
       [example_contact ''1'' (Some ''CEO'') None (Some ''Fintech'') 80 True,
        example_contact ''2'' (Some ''Analyst'') None (Some ''Travel'') 40 False]
       (Some [\<lparr> field = Some ''industry'', operator = PStr ''equals'', cvalue = PStr ''Travel'' \<rparr>,
              \<lparr> field = Some ''qualityScore'', operator = PStr ''gte'', cvalue = PInt 30 \<rparr>])
       None None None None None 50
   \<and> query_contacts [example_contact ''1'' (Some ''CEO'') None (Some ''Fintech'') 80 True]
       (Some [\<lparr> field = Some ''title'', operator = PNone, cvalue = PStr ''C'' \<rparr>])
       None None None None None 50
     = query_contacts [example_contact ''1'' (Some ''CEO'') None (Some ''Fintech'') 80 True]
       None None None None None None 50"
proof -
  let ?cl = "\<lparr> field = Some ''title'', operator = PStr ''startswith'', cvalue = PStr ''C'' \<rparr>"
  let ?cn = "\<lparr> field = Some ''title'', operator = PNone, cvalue = PStr ''C'' \<rparr>"
  have a: "operator ?cl \<noteq> PStr ''contains'' \<and> operator ?cl \<noteq> PStr ''equals''
           \<and> operator ?cl \<noteq> PStr ''gte''" by simp
  have b: "operator ?cn \<noteq> PStr ''contains'' \<and> operator ?cn \<noteq> PStr ''equals''
           \<and> operator ?cn \<noteq> PStr ''gte''" by simp
  show ?thesis
    using unknown_operator_ignored [OF a,
        where loaded = "[example_contact ''1'' (Some ''CEO'') None (Some ''Fintech'') 80 True]"]
      unknown_operator_ignored [OF a,
        where xs = "[\<lparr> field = Some ''industry'', operator = PStr ''equals'', cvalue = PStr ''Travel'' \<rparr>]"
          and ys = "[\<lparr> field = Some ''qualityScore'', operator = PStr ''gte'', cvalue = PInt 30 \<rparr>]"
          and loaded = "[example_contact ''1'' (Some ''CEO'') None (Some ''Fintech'') 80 True,
             example_contact ''2'' (Some ''Analyst'') None (Some ''Travel'') 40 False]"
          and mq = None and ie = None and co = None and ind = None and cs = None and limit = 50]
      unknown_operator_ignored [OF b,
        where loaded = "[example_contact ''1'' (Some ''CEO'') None (Some ''Fintech'') 80 True]"
          and mq = None and ie = None and co = None and ind = None and cs = None and limit = 50]
    by simp
qed

section \<open>Properties of the stats aggregator\<close>


lemma sum_update_bump:
  "sum_list (map snd (AList.update k (counter_get d k + 1) d)) = sum_list (map snd d) + 1"
  by (induction d) (auto simp: counter_get_def)

lemma sum_bump: "sum_list (map snd (bump k d)) = sum_list (map snd d) + 1"
  by (simp only: bump_def sum_update_bump)



lemma fold_bump_sum:
  "sum_list (map snd (fold (\<lambda>c d. bump (key c) d) cs d)) = sum_list (map snd d) + length cs"
  by (induction cs arbitrary: d) (simp_all add: sum_bump)




lemma count_by_sum: "sum_list (map snd (count_by key cs)) = length cs"
  by (simp add: count_by_def fold_bump_sum)





text \<open>
  Claim C8.  The counts of \<open>byState\<close> add up to the number of contacts, which is
  \<open>total\<close>; on an empty contact list the average quality score is 0, and the tool
  returns that result both when the file is missing and when it has no rows: nothing is
  divided by zero.
\<close>

theorem stats_by_state_sum:
  "sum_list (map snd (byState (get_contact_stats round1 loaded group_by))) = length loaded
   \<and> stats_total (get_contact_stats round1 loaded group_by) = length loaded
   \<and> avgQualityScore (get_contact_stats round1 [] group_by) = 0
   \<and> (\<exists>st. get_contact_stats_tool round1 None group_by = Inr st \<and> avgQualityScore st = 0
           \<and> stats_total st = 0 \<and> byState st = [])
   \<and> (\<exists>st. get_contact_stats_tool round1 (Some []) group_by = Inr st \<and> avgQualityScore st = 0
           \<and> stats_total st = 0 \<and> byState st = [])"
  by (simp add: get_contact_stats_def get_contact_stats_tool_def load_contacts_from_csv_def
      count_by_sum Let_def) (simp add: count_by_def)




section \<open>Properties of the relevance ranker\<close>

text \<open>
  Whenever the search returns, its results are in descending order of the relevance
  score, contacts of equal score keep the order of the loaded list, every relevance score
  lies in \<open>(0, 1]\<close>, and a query without a vocabulary keyword has no results.  The
  search returns when every loaded contact has a title, a company name and an industry,
  and raises \<open>TypeError\<close> as soon as one of them lacks one of the three.
\<close>

lemma keyword_score_fold:
  "fold (\<lambda>keyword score. if py_in keyword blob then score + 1 else score) kws (s::int)
     = s + int (length (filter (\<lambda>k. py_in k blob) kws))"
  by (induction kws arbitrary: s) simp_all

lemma keyword_score_count:
  "keyword_score kws blob = int (length (filter (\<lambda>k. py_in k blob) kws))"
  by (simp add: keyword_score_def keyword_score_fold)

lemma keyword_score_le: "keyword_score kws blob \<le> int (length kws)"
  by (simp add: keyword_score_count)

lemma keyword_score_Nil: "keyword_score [] blob = 0"
  by (simp add: keyword_score_def)

lemma score_contacts_range:
  "score_contacts kws cs = Inr sc \<Longrightarrow> p \<in> set sc \<Longrightarrow> 0 < snd p \<and> snd p \<le> int (length kws)"
proof (induction cs arbitrary: sc)
  case Nil
  then show ?case by simp
next
  case (Cons c cs)
  then show ?case
    using keyword_score_le [of kws]
    by (auto simp: Let_def split: sum.splits if_splits)
qed

lemma score_contacts_no_keywords:
  "score_contacts [] cs = Inr sc \<Longrightarrow> sc = []"
  by (induction cs arbitrary: sc) (auto simp: keyword_score_Nil Let_def split: sum.splits)

lemma score_contacts_total:
  "list_all (\<lambda>c. title c \<noteq> None \<and> companyName c \<noteq> None \<and> industry c \<noteq> None) cs \<Longrightarrow>
     \<exists>sc. score_contacts kws cs = Inr sc"
  by (induction cs) (auto simp: contact_text_def Let_def split: sum.splits)

lemma score_contacts_raises:
  "list_ex (\<lambda>c. title c = None \<or> companyName c = None \<or> industry c = None) cs \<Longrightarrow>
     score_contacts kws cs = Inl TypeError"
  by (induction cs) (auto simp: contact_text_def Let_def split: sum.splits option.splits)

lemma sort_by_score_desc_sorted:
  "sorted_wrt (\<lambda>a b. snd b \<le> snd a) (sort_by_score_desc xs)"
proof -
  have "sorted (map snd (sort_key snd (rev xs)))" by simp
  then have "sorted_wrt (\<lambda>a b. snd a \<le> snd b) (sort_key snd (rev xs))"
    by (simp add: sorted_map)
  then show ?thesis
    by (simp add: sort_by_score_desc_def sorted_wrt_rev)
qed

lemma sort_by_score_desc_stable:
  "filter (\<lambda>p. snd p = k) (sort_by_score_desc xs) = filter (\<lambda>p. snd p = k) xs"
  by (simp add: sort_by_score_desc_def sort_key_stable rev_filter [symmetric])

lemma set_sort_by_score_desc: "set (sort_by_score_desc xs) = set xs"
  by (simp add: sort_by_score_desc_def)

lemma sorted_wrt_py_take: "sorted_wrt R xs \<Longrightarrow> sorted_wrt R (py_take n xs)"
  by (simp add: py_take_def sorted_wrt_take)

lemma set_py_take: "set (py_take n xs) \<subseteq> set xs"
  by (auto simp: py_take_def dest: in_set_takeD)

lemma relevance_mono:
  "kws \<noteq> [] \<Longrightarrow> s \<le> t \<Longrightarrow> relevance kws s \<le> relevance kws t"
  by (simp add: relevance_def divide_right_mono)

lemma relevance_range:
  "0 < s \<Longrightarrow> s \<le> int (length kws) \<Longrightarrow> 0 < relevance kws s \<and> relevance kws s \<le> 1"
proof -
  assume s: "0 < s" "s \<le> int (length kws)"
  then have n: "kws \<noteq> []" by auto
  then have p: "(0::rat) < of_nat (length kws)" by simp
  have "(of_int s :: rat) \<le> of_int (int (length kws))" using s(2) by (simp only: of_int_le_iff)
  then have "(of_int s :: rat) \<le> of_nat (length kws)" by simp
  with p s(1) n show ?thesis
    by (simp add: relevance_def)
qed

lemma relevanceScore_search_hit_of [simp]:
  "relevanceScore (search_hit_of kws p) = relevance kws (snd p)"
  by (cases p) (simp add: search_hit_of_def)

lemma vector_search_Inr:
  assumes "score_contacts (extract_keywords query) loaded = Inr sc"
    and "vector_search_contacts loaded query top_k mq ie co = Inr out"
  shows "results out = map (search_hit_of (extract_keywords query))
           (py_take top_k (filter (\<lambda>p. passes_filters mq ie co (fst p)) (sort_by_score_desc sc)))"
    and "totalMatched out = length (results out)"
    and "extractedKeywords out = extract_keywords query"
    and "searchQuery out = query"
  using assms by (auto simp: vector_search_contacts_def Let_def)

lemma vector_search_Inr_iff:
  "(\<exists>out. vector_search_contacts loaded query top_k mq ie co = Inr out)
     = (\<exists>sc. score_contacts (extract_keywords query) loaded = Inr sc)"
  by (auto simp: vector_search_contacts_def Let_def split: sum.splits)

lemma search_results_sorted:
  assumes "vector_search_contacts loaded query top_k mq ie co = Inr out"
  shows "sorted_wrt (\<lambda>a b. relevanceScore b \<le> relevanceScore a) (results out)"
proof -
  let ?kws = "extract_keywords query"
  from assms(1) have "\<exists>out. vector_search_contacts loaded query top_k mq ie co = Inr out"
    by blast
  then obtain sc where sc: "score_contacts ?kws loaded = Inr sc"
    unfolding vector_search_Inr_iff by blast
  let ?ranked = "py_take top_k (filter (\<lambda>p. passes_filters mq ie co (fst p)) (sort_by_score_desc sc))"
  have r: "results out = map (search_hit_of ?kws) ?ranked"
    using vector_search_Inr(1) [OF sc assms] .
  have s: "sorted_wrt (\<lambda>a b. snd b \<le> snd a) ?ranked"
    by (intro sorted_wrt_py_take sorted_wrt_filter sort_by_score_desc_sorted)
  show ?thesis
  proof (cases "?kws = []")
    case True
    with sc have "score_contacts [] loaded = Inr sc" by simp
    then have "sc = []" by (rule score_contacts_no_keywords)
    with r show ?thesis by (simp add: sort_by_score_desc_def py_take_def)
  next
    case False
    have "sorted_wrt (\<lambda>a b. relevance ?kws (snd b) \<le> relevance ?kws (snd a)) ?ranked"
      by (rule sorted_wrt_mono_rel [OF _ s]) (simp add: relevance_mono [OF False])
    then show ?thesis by (simp add: r sorted_wrt_map)
  qed
qed

lemma search_results_range:
  assumes "vector_search_contacts loaded query top_k mq ie co = Inr out"
    and "h \<in> set (results out)"
  shows "0 < relevanceScore h \<and> relevanceScore h \<le> 1"
proof -
  let ?kws = "extract_keywords query"
  from assms(1) have "\<exists>out. vector_search_contacts loaded query top_k mq ie co = Inr out"
    by blast
  then obtain sc where sc: "score_contacts ?kws loaded = Inr sc"
    unfolding vector_search_Inr_iff by blast
  let ?ranked = "py_take top_k (filter (\<lambda>p. passes_filters mq ie co (fst p)) (sort_by_score_desc sc))"
  have r: "results out = map (search_hit_of ?kws) ?ranked"
    using vector_search_Inr(1) [OF sc assms(1)] .
  with assms(2) obtain p where p: "p \<in> set ?ranked" "h = search_hit_of ?kws p" by auto
  have "set ?ranked
          \<subseteq> set (filter (\<lambda>p. passes_filters mq ie co (fst p)) (sort_by_score_desc sc))"
    by (rule set_py_take)
  also have "\<dots> \<subseteq> set sc"
    by (auto simp: set_sort_by_score_desc)
  finally have "p \<in> set sc" using p(1) by blast
  from score_contacts_range [OF sc this]
  have "0 < relevance ?kws (snd p) \<and> relevance ?kws (snd p) \<le> 1"
    by (intro relevance_range) simp_all
  then show ?thesis
    by (simp only: p(2) relevanceScore_search_hit_of)
qed

lemma search_ties_in_source_order:
  assumes "score_contacts (extract_keywords query) loaded = Inr sc"
  shows "filter (\<lambda>p. snd p = k)
           (filter (\<lambda>p. passes_filters mq ie co (fst p)) (sort_by_score_desc sc))
         = filter (\<lambda>p. snd p = k) (filter (\<lambda>p. passes_filters mq ie co (fst p)) sc)"
proof -
  have "filter (\<lambda>p. snd p = k)
           (filter (\<lambda>p. passes_filters mq ie co (fst p)) (sort_by_score_desc sc))
      = filter (\<lambda>p. passes_filters mq ie co (fst p))
           (filter (\<lambda>p. snd p = k) (sort_by_score_desc sc))"
    by (simp add: conj_commute)
  also have "\<dots> = filter (\<lambda>p. passes_filters mq ie co (fst p)) (filter (\<lambda>p. snd p = k) sc)"
    by (simp only: sort_by_score_desc_stable)
  also have "\<dots> = filter (\<lambda>p. snd p = k) (filter (\<lambda>p. passes_filters mq ie co (fst p)) sc)"
    by (simp add: conj_commute)
  finally show ?thesis .
qed

lemma search_no_keywords:
  assumes "extract_keywords query = []"
    and "vector_search_contacts loaded query top_k mq ie co = Inr out"
  shows "results out = [] \<and> extractedKeywords out = [] \<and> totalMatched out = 0"
proof -
  from assms(2) have "\<exists>out. vector_search_contacts loaded query top_k mq ie co = Inr out"
    by blast
  then obtain sc where sc: "score_contacts (extract_keywords query) loaded = Inr sc"
    unfolding vector_search_Inr_iff by blast
  with assms(1) have "score_contacts [] loaded = Inr sc" by simp
  then have "sc = []" by (rule score_contacts_no_keywords)
  with assms(1) vector_search_Inr [OF sc assms(2)] show ?thesis
    by (simp add: sort_by_score_desc_def py_take_def)
qed

lemma search_returns_when_text_present:
  "list_all (\<lambda>c. title c \<noteq> None \<and> companyName c \<noteq> None \<and> industry c \<noteq> None) loaded \<Longrightarrow>
     \<exists>out. vector_search_contacts loaded query top_k mq ie co = Inr out"
  using score_contacts_total [of loaded "extract_keywords query"]
  by (simp add: vector_search_Inr_iff)

lemma search_raises_when_text_missing:
  "list_ex (\<lambda>c. title c = None \<or> companyName c = None \<or> industry c = None) loaded \<Longrightarrow>
     vector_search_contacts loaded query top_k mq ie co = Inl TypeError"
  by (simp add: vector_search_contacts_def Let_def score_contacts_raises)

text \<open>
  Claim C10 fails on the code.  A CSV file whose only row has a company name and an
  industry and no title loads as one contact with the title \<open>None\<close>; the query
  \<open>hello\<close> holds no vocabulary keyword; and the search raises \<open>TypeError\<close> where
  the claim has the empty result.
\<close>

theorem search_missing_title_raises:
  "extract_keywords ''hello'' = []
   \<and> (\<exists>c. load_contacts_from_csv
            (Some [Map.empty(''Company Name'' \<mapsto> ''PayCo'', ''Industry'' \<mapsto> ''Fintech'')]) = Inr [c]
          \<and> title c = None \<and> companyName c = Some ''PayCo'' \<and> industry c = Some ''Fintech'')
   \<and> vector_search_contacts_tool
        (Some [Map.empty(''Company Name'' \<mapsto> ''PayCo'', ''Industry'' \<mapsto> ''Fintech'')])
        ''hello'' 20 None None None = Inl TypeError"
proof -
  let ?r = "Map.empty(''Company Name'' \<mapsto> ''PayCo'', ''Industry'' \<mapsto> ''Fintech'')"
  have k: "extract_keywords ''hello'' = []"
    by (simp add: extract_keywords_def terms_def py_lower_def py_lower_char_def)
  have "py_int (employees_text ?r) = Some 0"
    by (simp add: employees_text_def get_default_def py_int_def int_space_def is_digit_def
        digit_val_def)
  then obtain c where c: "transform_apollo_to_contact ?r = Inr c"
    by (auto simp: transform_apollo_to_contact_def Let_def)
  then have f: "title c = None" "companyName c = Some ''PayCo''" "industry c = Some ''Fintech''"
    by (auto simp: transform_apollo_to_contact_def Let_def split: option.splits)
  from c have l: "load_contacts_from_csv (Some [?r]) = Inr [c]"
    by (simp add: load_contacts_from_csv_def)
  from f have "vector_search_contacts [c] ''hello'' 20 None None None = Inl TypeError"
    by (simp add: search_raises_when_text_missing)
  with l have "vector_search_contacts_tool (Some [?r]) ''hello'' 20 None None None = Inl TypeError"
    by (simp add: vector_search_contacts_tool_def)
  with k l f show ?thesis by blast
qed

end
